theory Spec2Isabelle
  imports Main
begin

section \<open>JavaScript values used by the two components\<close>

text \<open>
  Both components build URLs and messages with template literals, which convert a
  \<open>number\<close> to text by \<open>Number::toString\<close>. The identifiers are integers (the controller
  parses them with \<open>ParseIntPipe\<close>, the component receives \<open>postId\<close>), but a \<open>number\<close> is a
  double: an integer enters the program, from a literal or from \<open>parseInt\<close>, as the double
  nearest to it, and the text of a double is the shortest decimal that reads back as the
  same double, written in exponent form from \<open>10^21\<close> on. So \<open>2^53 + 1\<close> is printed as
  \<open>9007199254740992\<close>, \<open>2^60\<close> as \<open>1152921504606847000\<close> and \<open>10^21\<close> as \<open>1e+21\<close>. Below
  \<open>2^53\<close> every integer is a double and its text is its decimal numeral.
\<close>

definition digitChar :: "nat \<Rightarrow> char" where
  "digitChar d = ''0123456789'' ! d"

fun natToString :: "nat \<Rightarrow> string" where
  "natToString n =
     (if n < 10 then [digitChar n] else natToString (n div 10) @ [digitChar (n mod 10)])"

declare natToString.simps [simp del]

fun bitLength :: "nat \<Rightarrow> nat" where
  "bitLength n = (if n = 0 then 0 else Suc (bitLength (n div 2)))"

declare bitLength.simps [simp del]

text \<open>
  \<open>toNumber a\<close> is the double nearest to the natural number \<open>a\<close>: the 53 leading bits of
  \<open>a\<close>, rounded to nearest with ties to the even significand. From \<open>2^1024\<close> on the result
  is \<open>Infinity\<close>, here \<open>None\<close>.
\<close>

definition toNumber :: "nat \<Rightarrow> nat option" where
  "toNumber a =
     (if a < 2 ^ 53 then Some a
      else let e = bitLength a - 53;
               m = a div 2 ^ e;
               r = a mod 2 ^ e;
               m' = (if 2 ^ e < 2 * r \<or> (2 * r = 2 ^ e \<and> odd m) then m + 1 else m);
               v = m' * 2 ^ e
           in if v < 2 ^ 1024 then Some v else None)"

text \<open>
  \<open>roundsTo v c\<close>: the integer \<open>c\<close> reads back as the double \<open>v\<close>, for \<open>v\<close> from \<open>2^53\<close> on,
  where \<open>v\<close> is \<open>m * 2^e\<close> and its neighbours are \<open>2^e\<close> away (the lower one half as far when
  \<open>v\<close> is a power of two). \<open>c\<close> must lie within half the distance to each neighbour, the
  end points included when \<open>m\<close> is even. The bounds are written four times over and
  without subtraction, to stay in the natural numbers.
\<close>

definition roundsTo :: "nat \<Rightarrow> nat \<Rightarrow> bool" where
  "roundsTo v c =
     (let e = bitLength v - 53;
          m = v div 2 ^ e;
          below = (if m = 2 ^ 52 then 2 ^ e else 2 ^ (e + 1));
          above = 2 ^ (e + 1)
      in if even m then 4 * v \<le> 4 * c + below \<and> 4 * c \<le> 4 * v + above
         else 4 * v < 4 * c + below \<and> 4 * c < 4 * v + above)"

text \<open>
  \<open>shortest v d k\<close>, for a double \<open>v\<close> of \<open>d\<close> decimal digits: the integer with the fewest
  significant digits, at least \<open>k\<close>, that reads back as \<open>v\<close>; among two of the same length
  the one nearer to \<open>v\<close>, and the even one when they are equally near.
\<close>

function shortest :: "nat \<Rightarrow> nat \<Rightarrow> nat \<Rightarrow> nat" where
  "shortest v d k =
     (if d \<le> k then v
      else let p = 10 ^ (d - k); lo = (v div p) * p; hi = lo + p in
           if roundsTo v lo \<and> roundsTo v hi then
             (if v - lo < hi - v then lo
              else if hi - v < v - lo then hi
              else if even (lo div p) then lo else hi)
           else if roundsTo v lo then lo
           else if roundsTo v hi then hi
           else shortest v d (Suc k))"
  by pat_completeness auto
termination
  by (relation "measure (\<lambda>(v, d, k). d - k)") auto

declare shortest.simps [simp del]

definition stripZeros :: "string \<Rightarrow> string" where
  "stripZeros ds = rev (dropWhile (\<lambda>c. c = CHR ''0'') (rev ds))"

text \<open>
  The text of a double with a natural value: up to 21 digits the digits themselves,
  the insignificant ones being zeros; beyond that the significant digits, a point after the first if
  there are several, and the exponent.
\<close>

definition doubleToString :: "nat \<Rightarrow> string" where
  "doubleToString v =
     (if v < 2 ^ 53 then natToString v
      else let ds = natToString (shortest v (length (natToString v)) 1); n = length ds in
           if n \<le> 21 then ds
           else (case stripZeros ds of
                   [] \<Rightarrow> []
                 | [x] \<Rightarrow> x # ''e+'' @ natToString (n - 1)
                 | x # xs \<Rightarrow> x # ''.'' @ xs @ ''e+'' @ natToString (n - 1)))"

definition numberToString :: "int \<Rightarrow> string" where
  "numberToString i =
     (case toNumber (nat \<bar>i\<bar>) of
        None \<Rightarrow> (if i < 0 then ''-Infinity'' else ''Infinity'')
      | Some v \<Rightarrow> (if i < 0 then ''-'' @ doubleToString v else doubleToString v))"

text \<open>
  A value that is thrown, or that a promise rejects with. \<open>ErrorInstance name message\<close>
  is an instance of \<open>Error\<close> (or of a subclass such as \<open>TypeError\<close>, \<open>AxiosError\<close> or the
  \<open>DOMException\<close> named \<open>AbortError\<close>); \<open>HttpException message status\<close> is the NestJS
  class, itself a subclass of \<open>Error\<close>; \<open>NonError\<close> stands for every other value
  (a string, a number, a plain object, \<open>undefined\<close>).
\<close>

datatype thrown =
    ErrorInstance string string
  | HttpException string nat
  | NonError

fun instanceofError :: "thrown \<Rightarrow> bool" where
  "instanceofError (ErrorInstance n m) = True"
| "instanceofError (HttpException m s) = True"
| "instanceofError NonError = False"

fun errorName :: "thrown \<Rightarrow> string" where
  "errorName (ErrorInstance n m) = n"
| "errorName (HttpException m s) = ''HttpException''"
| "errorName NonError = []"

fun errorMessage :: "thrown \<Rightarrow> string" where
  "errorMessage (ErrorInstance n m) = m"
| "errorMessage (HttpException m s) = m"
| "errorMessage NonError = []"

text \<open>
  An awaited promise either never settles (\<open>None\<close>), rejects (\<open>Some (Inl e)\<close>) or
  fulfils (\<open>Some (Inr v)\<close>). An \<open>async\<close> function returns such a promise: a \<open>throw\<close> in
  its body is a rejection, a \<open>return\<close> a fulfilment.
\<close>

type_synonym 'a promise = "(thrown + 'a) option"

section \<open>The post record\<close>

text \<open>The interface \<open>ApiPost\<close>; the field \<open>id\<close> is written \<open>id'\<close>.\<close>

record ApiPost =
  userId :: int
  id' :: int
  title :: string
  body :: string

section \<open>ApiDataService\<close>

text \<open>
  The part of an axios response the service and its tests name. The type parameter is
  the decoded body: \<open>get<T>\<close> is an unchecked annotation, so the service is polymorphic
  in it. The status fields are never read by the service.
\<close>

record 'd AxiosResponse =
  data :: 'd
  axiosStatus :: int
  axiosStatusText :: string

text \<open>An \<open>AxiosInstance\<close>, as far as the service uses it: its \<open>get\<close> method.\<close>

type_synonym 'd AxiosInstance = "string \<Rightarrow> 'd AxiosResponse promise"

record 'd ApiDataService =
  apiBaseUrl :: string
  httpClient :: "'d AxiosInstance"

definition DEFAULT_API_BASE_URL :: string where
  "DEFAULT_API_BASE_URL = ''https://jsonplaceholder.typicode.com''"

text \<open>\<open>HttpStatus.BAD_GATEWAY\<close> of \<open>@nestjs/common\<close>.\<close>

definition BAD_GATEWAY :: nat where
  "BAD_GATEWAY = 502"

text \<open>
  The constructor reads \<open>process.env\<close> (a map from variable names to values) and calls
  \<open>axios.create\<close> with \<open>timeout: 5000\<close>; both are parameters. \<open>??\<close> falls back only on
  an absent value, so an empty string is kept.
\<close>

definition constructor ::
  "(string \<rightharpoonup> string) \<Rightarrow> (nat \<Rightarrow> 'd AxiosInstance) \<Rightarrow> 'd ApiDataService" where
  "constructor env axiosCreate =
     \<lparr> apiBaseUrl = (case env ''API_BASE_URL'' of Some u \<Rightarrow> u | None \<Rightarrow> DEFAULT_API_BASE_URL),
       httpClient = axiosCreate 5000 \<rparr>"

definition createWithClient ::
  "(string \<rightharpoonup> string) \<Rightarrow> 'd AxiosInstance \<Rightarrow> string option \<Rightarrow> 'd ApiDataService" where
  "createWithClient env client baseUrl =
     \<lparr> apiBaseUrl =
         (case baseUrl of
            Some b \<Rightarrow> b
          | None \<Rightarrow> (case env ''API_BASE_URL'' of Some u \<Rightarrow> u | None \<Rightarrow> DEFAULT_API_BASE_URL)),
       httpClient = client \<rparr>"

text \<open>
  \<open>fetchPostById\<close>: the \<open>try\<close> block awaits the client and returns \<open>response.data\<close>;
  the \<open>catch\<close> block wraps whatever was thrown.
\<close>

definition fetchPostById :: "'d ApiDataService \<Rightarrow> int \<Rightarrow> 'd promise" where
  "fetchPostById this postId =
     (let url = apiBaseUrl this @ ''/posts/'' @ numberToString postId in
      case httpClient this url of
        None \<Rightarrow> None
      | Some (Inr response) \<Rightarrow> Some (Inr (data response))
      | Some (Inl error) \<Rightarrow>
          (let message = (if instanceofError error then errorMessage error
                          else ''Unknown error fetching post'')
           in Some (Inl (HttpException
                (''Failed to fetch post '' @ numberToString postId @ '': '' @ message)
                BAD_GATEWAY))))"

definition fetchAllPosts :: "'d ApiDataService \<Rightarrow> 'd promise" where
  "fetchAllPosts this =
     (let url = apiBaseUrl this @ ''/posts'' in
      case httpClient this url of
        None \<Rightarrow> None
      | Some (Inr response) \<Rightarrow> Some (Inr (data response))
      | Some (Inl error) \<Rightarrow>
          (let message = (if instanceofError error then errorMessage error
                          else ''Unknown error fetching posts'')
           in Some (Inl (HttpException (''Failed to fetch posts: '' @ message) BAD_GATEWAY))))"

section \<open>PostDisplay\<close>

text \<open>
  The three \<open>useState\<close> cells of the component, with their initial values.
\<close>

record PostDisplayState =
  post :: "ApiPost option"
  loading :: bool
  error :: "string option"

definition initialState :: PostDisplayState where
  "initialState = \<lparr> post = None, loading = True, error = None \<rparr>"

text \<open>
  What the component reads of a \<open>Response\<close>. The body is delivered by a second promise,
  \<open>response.json()\<close>, which settles on its own (see \<open>JsonSettled\<close> below); its value is
  cast to \<open>ApiPost\<close> without a check.
\<close>

record Response =
  ok :: bool
  status :: int
  statusText :: string

subsection \<open>The body of \<open>fetchPost\<close>\<close>

text \<open>
  \<open>fetchPost\<close> suspends at two \<open>await\<close>s, so it is cut in three pieces: the statements
  before \<open>await fetch\<close>, the statements between that and \<open>await response.json()\<close>, and
  the statements after it. Every path through \<open>try\<close> and \<open>catch\<close> ends in \<open>finally\<close>.
\<close>

definition beforeFetch :: "PostDisplayState \<Rightarrow> PostDisplayState" where
  "beforeFetch s = (s\<lparr> loading := True \<rparr>)\<lparr> error := None \<rparr>"

definition catchClause :: "thrown \<Rightarrow> PostDisplayState \<Rightarrow> PostDisplayState" where
  "catchClause err s =
     (if instanceofError err \<and> errorName err \<noteq> ''AbortError''
      then s\<lparr> error := Some (errorMessage err) \<rparr>
      else s)"

definition finallyClause :: "PostDisplayState \<Rightarrow> PostDisplayState" where
  "finallyClause s = s\<lparr> loading := False \<rparr>"

text \<open>The check of \<open>response.ok\<close>: the \<open>throw\<close> of the \<open>try\<close> block.\<close>

definition checkOk :: "Response \<Rightarrow> thrown option" where
  "checkOk response =
     (if \<not> ok response
      then Some (ErrorInstance ''Error''
             (''HTTP '' @ numberToString (status response) @ '': '' @ statusText response))
      else None)"

text \<open>
  \<open>afterFetch r s\<close>: the promise of \<open>fetch\<close> has settled with \<open>r\<close>. The result is \<open>None\<close>
  when the function goes on to await \<open>response.json()\<close>, and otherwise the state after
  \<open>catch\<close> and \<open>finally\<close>.
\<close>

definition afterFetch :: "thrown + Response \<Rightarrow> PostDisplayState \<Rightarrow> PostDisplayState option" where
  "afterFetch r s =
     (case r of
        Inl err \<Rightarrow> Some (finallyClause (catchClause err s))
      | Inr response \<Rightarrow>
          (case checkOk response of
             Some err \<Rightarrow> Some (finallyClause (catchClause err s))
           | None \<Rightarrow> None))"

text \<open>\<open>afterJson r s\<close>: the promise of \<open>response.json()\<close> has settled with \<open>r\<close>.\<close>

definition afterJson :: "thrown + ApiPost \<Rightarrow> PostDisplayState \<Rightarrow> PostDisplayState" where
  "afterJson r s =
     (case r of
        Inl err \<Rightarrow> finallyClause (catchClause err s)
      | Inr decoded \<Rightarrow> finallyClause (s\<lparr> post := Some decoded \<rparr>))"

subsection \<open>Rendering\<close>

text \<open>
  The rendered tree: an element has a tag, a \<open>data-testid\<close> and children. \<open>if (error)\<close>
  and \<open>if (!post)\<close> test truthiness: \<open>null\<close> and the empty string are falsy.
\<close>

datatype element = Element string string "element list" | TextNode string

fun textContent :: "element \<Rightarrow> string" where
  "textContent (TextNode t) = t"
| "textContent (Element tag testid children) = concat (map textContent children)"

definition render :: "PostDisplayState \<Rightarrow> element" where
  "render s =
     (if loading s then Element ''div'' ''loading'' [TextNode ''Loading...'']
      else if error s \<noteq> None \<and> error s \<noteq> Some []
        then Element ''div'' ''error'' [TextNode ''Error: '', TextNode (the (error s))]
      else (case post s of
              None \<Rightarrow> Element ''div'' ''empty'' [TextNode ''No post data'']
            | Some p \<Rightarrow>
                Element ''div'' ''post-display''
                  [Element ''h2'' ''post-title'' [TextNode (title p)],
                   Element ''p'' ''post-body'' [TextNode (body p)]]))"

subsection \<open>The lifecycle of one component instance\<close>

text \<open>
  One run of the effect is an attempt: the URL it passed to \<open>fetch\<close>, whether its
  \<open>AbortController\<close> has been aborted, and where its \<open>fetchPost\<close> is suspended.
\<close>

datatype phase = AwaitFetch | AwaitJson | Done

record Attempt =
  url :: string
  aborted :: bool
  phase :: phase

text \<open>
  An instance is not yet mounted, mounted with the dependency array \<open>[apiBaseUrl, postId]\<close>
  of its last effect, or unmounted for good.
\<close>

datatype lifecycle = Fresh | Mounted string int | Unmounted

record PostDisplay =
  lifecycle :: lifecycle
  state :: PostDisplayState
  attempts :: "Attempt list"

definition fresh :: PostDisplay where
  "fresh = \<lparr> lifecycle = Fresh, state = initialState, attempts = [] \<rparr>"

text \<open>The effect: a new controller, \<open>fetchPost\<close> up to its first \<open>await\<close>.\<close>

definition runEffect :: "string \<Rightarrow> int \<Rightarrow> PostDisplay \<Rightarrow> PostDisplay" where
  "runEffect apiBaseUrl' postId c =
     c\<lparr> lifecycle := Mounted apiBaseUrl' postId,
        state := beforeFetch (state c),
        attempts := attempts c @
          [\<lparr> url = apiBaseUrl' @ ''/posts/'' @ numberToString postId,
             aborted = False, phase = AwaitFetch \<rparr>] \<rparr>"

text \<open>The cleanup of the last effect: \<open>controller.abort()\<close>.\<close>

definition cleanup :: "PostDisplay \<Rightarrow> PostDisplay" where
  "cleanup c =
     (case attempts c of
        [] \<Rightarrow> c
      | a # as \<Rightarrow>
          c\<lparr> attempts := butlast (attempts c) @ [(last (attempts c))\<lparr> aborted := True \<rparr>] \<rparr>)"

text \<open>A state setter called after the instance is unmounted changes nothing.\<close>

definition setState :: "PostDisplayState \<Rightarrow> PostDisplay \<Rightarrow> PostDisplay" where
  "setState s c = (if lifecycle c = Unmounted then c else c\<lparr> state := s \<rparr>)"

definition setPhase :: "nat \<Rightarrow> phase \<Rightarrow> PostDisplay \<Rightarrow> PostDisplay" where
  "setPhase k p c = c\<lparr> attempts := (attempts c)[k := (attempts c ! k)\<lparr> phase := p \<rparr>] \<rparr>"

text \<open>
  What happens to an instance: it is rendered with props (either may be omitted), it is
  unmounted, the \<open>fetch\<close> promise of attempt \<open>k\<close> settles, or the \<open>json\<close> promise of attempt
  \<open>k\<close> settles. An event for an attempt that is not waiting for it does nothing.
\<close>

datatype event =
    Render "string option" "int option"
  | Unmount
  | FetchSettled nat "thrown + Response"
  | JsonSettled nat "thrown + ApiPost"

fun step :: "event \<Rightarrow> PostDisplay \<Rightarrow> PostDisplay" where
  "step (Render a p) c =
     (let apiBaseUrl' = (case a of None \<Rightarrow> ''http://localhost:3000/api'' | Some x \<Rightarrow> x);
          postId = (case p of None \<Rightarrow> 1 | Some x \<Rightarrow> x)
      in case lifecycle c of
           Fresh \<Rightarrow> runEffect apiBaseUrl' postId c
         | Mounted b i \<Rightarrow>
             if b = apiBaseUrl' \<and> i = postId then c
             else runEffect apiBaseUrl' postId (cleanup c)
         | Unmounted \<Rightarrow> c)"
| "step Unmount c =
     (case lifecycle c of
        Mounted b i \<Rightarrow> (cleanup c)\<lparr> lifecycle := Unmounted \<rparr>
      | _ \<Rightarrow> c)"
| "step (FetchSettled k r) c =
     (if k < length (attempts c) \<and> phase (attempts c ! k) = AwaitFetch
      then (case afterFetch r (state c) of
              None \<Rightarrow> setPhase k AwaitJson c
            | Some s \<Rightarrow> setPhase k Done (setState s c))
      else c)"
| "step (JsonSettled k r) c =
     (if k < length (attempts c) \<and> phase (attempts c ! k) = AwaitJson
      then setPhase k Done (setState (afterJson r (state c)) c)
      else c)"

definition run :: "event list \<Rightarrow> PostDisplay \<Rightarrow> PostDisplay" where
  "run es c = fold step es c"

text \<open>
  An event is a stale settlement in \<open>c\<close> when it settles a promise of an attempt whose
  controller has been aborted. A transport honours the abort signal when such a promise
  rejects with the error named \<open>AbortError\<close>, as \<open>fetch\<close> does.
\<close>

definition isAbortError :: "thrown \<Rightarrow> bool" where
  "isAbortError err = (instanceofError err \<and> errorName err = ''AbortError'')"

fun staleAbort :: "event \<Rightarrow> PostDisplay \<Rightarrow> bool" where
  "staleAbort (FetchSettled k r) c =
     (k < length (attempts c) \<and> aborted (attempts c ! k) \<and>
      (case r of Inl err \<Rightarrow> isAbortError err | Inr response \<Rightarrow> False))"
| "staleAbort (JsonSettled k r) c =
     (k < length (attempts c) \<and> aborted (attempts c ! k) \<and>
      (case r of Inl err \<Rightarrow> isAbortError err | Inr d \<Rightarrow> False))"
| "staleAbort (Render a p) c = False"
| "staleAbort Unmount c = False"

text \<open>
  A history of supersessions: identity changes issued while the attempt in flight has not
  settled, so that the only settlements in it are stale ones that honour the abort signal.
  \<open>staleOnly\<close> is such a history without renders.
\<close>

fun isRender :: "event \<Rightarrow> bool" where
  "isRender (Render a p) = True"
| "isRender Unmount = False"
| "isRender (FetchSettled k r) = False"
| "isRender (JsonSettled k r) = False"

fun supersessions :: "event list \<Rightarrow> PostDisplay \<Rightarrow> bool" where
  "supersessions [] c = True"
| "supersessions (e # es) c = ((isRender e \<or> staleAbort e c) \<and> supersessions es (step e c))"

fun staleOnly :: "event list \<Rightarrow> PostDisplay \<Rightarrow> bool" where
  "staleOnly [] c = True"
| "staleOnly (e # es) c = (staleAbort e c \<and> staleOnly es (step e c))"

text \<open>The index of the attempt of the most recent identity.\<close>

definition latest :: "PostDisplay \<Rightarrow> nat" where
  "latest c = length (attempts c) - 1"

text \<open>
  The two cells that hold the result of a call: the post and the error. The \<open>loading\<close>
  cell is the third.
\<close>

definition outcome :: "PostDisplayState \<Rightarrow> ApiPost option \<times> string option" where
  "outcome s = (post s, error s)"

text \<open>
  An attempt is in flight when the instance is mounted and its most recent attempt is
  neither aborted nor resumed.
\<close>

definition inFlight :: "PostDisplay \<Rightarrow> bool" where
  "inFlight c =
     (lifecycle c \<noteq> Fresh \<and> lifecycle c \<noteq> Unmounted \<and> attempts c \<noteq> [] \<and>
      \<not> aborted (last (attempts c)) \<and> phase (last (attempts c)) = AwaitFetch)"

section \<open>Evaluation lemmas\<close>

lemma numberToString_1: "numberToString 1 = ''1''"
  by (simp add: numberToString_def toNumber_def doubleToString_def natToString.simps digitChar_def)

lemma numberToString_404: "numberToString 404 = ''404''"
  by (simp add: numberToString_def toNumber_def doubleToString_def natToString.simps digitChar_def)

lemma numberToString_999: "numberToString 999 = ''999''"
  by (simp add: numberToString_def toNumber_def doubleToString_def natToString.simps digitChar_def)

text \<open>Below \<open>2^53\<close> the text of an integer is its decimal numeral.\<close>

lemma numberToString_safe:
  assumes "\<bar>i\<bar> < 2 ^ 53"
  shows "numberToString i =
           (if i < 0 then ''-'' @ natToString (nat (- i)) else natToString (nat i))"
proof -
  define a where "a = nat \<bar>i\<bar>"
  have small: "a < 2 ^ 53"
    using assms unfolding a_def by (simp add: nat_less_iff)
  have "numberToString i = (if i < 0 then ''-'' @ natToString a else natToString a)"
    unfolding numberToString_def a_def [symmetric]
    using small by (simp add: toNumber_def doubleToString_def)
  moreover have "a = (if i < 0 then nat (- i) else nat i)"
    by (simp add: a_def)
  ultimately show ?thesis
    by simp
qed

text \<open>From \<open>2^53\<close> on, the evaluation goes through the double and its shortest decimal.\<close>

lemma numberToString_big:
  assumes "toNumber (nat \<bar>i\<bar>) = Some v" and "\<not> v < 2 ^ 53"
    and "natToString v = ds" and "shortest v (length ds) 1 = c" and "natToString c = cs"
  shows "numberToString i =
           (if i < 0 then ''-'' else []) @
           (if length cs \<le> 21 then cs
            else (case stripZeros cs of
                    [] \<Rightarrow> []
                  | [x] \<Rightarrow> x # ''e+'' @ natToString (length cs - 1)
                  | x # xs \<Rightarrow> x # ''.'' @ xs @ ''e+'' @ natToString (length cs - 1)))"
  using assms by (simp add: numberToString_def doubleToString_def Let_def)

lemma numberToString_1e21: "numberToString 1000000000000000000000 = ''1e+21''"
proof -
  let ?v = "1000000000000000000000 :: nat"
  have n: "toNumber (nat \<bar>1000000000000000000000 :: int\<bar>) = Some ?v"
    by (simp add: toNumber_def bitLength.simps Let_def)
  have big: "\<not> ?v < 2 ^ 53"
    by simp
  have ds: "natToString ?v = ''1000000000000000000000''"
    by (simp add: natToString.simps digitChar_def)
  have sh: "shortest ?v (length ''1000000000000000000000'') 1 = ?v"
    by (simp add: shortest.simps roundsTo_def bitLength.simps Let_def)
  show ?thesis
    by (simp add: numberToString_big [OF n big ds sh ds] stripZeros_def natToString.simps
          digitChar_def)
qed

lemma numberToString_2_60: "numberToString 1152921504606846976 = ''1152921504606847000''"
proof -
  let ?v = "1152921504606846976 :: nat"
  have n: "toNumber (nat \<bar>1152921504606846976 :: int\<bar>) = Some ?v"
    by (simp add: toNumber_def bitLength.simps Let_def)
  have big: "\<not> ?v < 2 ^ 53"
    by simp
  have ds: "natToString ?v = ''1152921504606846976''"
    by (simp add: natToString.simps digitChar_def)
  have sh: "shortest ?v (length ''1152921504606846976'') 1 = 1152921504606847000"
    by (simp add: shortest.simps roundsTo_def bitLength.simps Let_def)
  have cs: "natToString 1152921504606847000 = ''1152921504606847000''"
    by (simp add: natToString.simps digitChar_def)
  show ?thesis
    by (simp add: numberToString_big [OF n big ds sh cs])
qed

lemma numberToString_2_53_1: "numberToString 9007199254740993 = ''9007199254740992''"
proof -
  let ?v = "9007199254740992 :: nat"
  have n: "toNumber (nat \<bar>9007199254740993 :: int\<bar>) = Some ?v"
    by (simp add: toNumber_def bitLength.simps Let_def)
  have big: "\<not> ?v < 2 ^ 53"
    by simp
  have ds: "natToString ?v = ''9007199254740992''"
    by (simp add: natToString.simps digitChar_def)
  have sh: "shortest ?v (length ''9007199254740992'') 1 = ?v"
    by (simp add: shortest.simps roundsTo_def bitLength.simps Let_def)
  show ?thesis
    by (simp add: numberToString_big [OF n big ds sh ds])
qed

lemmas lifecycle_defs =
  run_def fresh_def initialState_def runEffect_def cleanup_def beforeFetch_def
  setState_def setPhase_def afterFetch_def afterJson_def checkOk_def
  catchClause_def finallyClause_def

section \<open>ApiDataService: results and failures\<close>

text \<open>
  C3. When the client's \<open>get\<close> rejects with an \<open>Error\<close> whose message is \<open>m\<close>,
  \<open>fetchPostById id\<close> rejects with an \<open>HttpException\<close> whose message is exactly
  \<open>Failed to fetch post {id}: {m}\<close>, for every integer id, where \<open>{id}\<close> is the text the
  template literal gives the number. The instance of the test suite, id 999 and
  \<open>Network Error\<close>, follows it, and so does the instance at \<open>10^21\<close>, whose text is \<open>1e+21\<close>.
\<close>

theorem fetchPostById_wraps_error_message:
  assumes "httpClient this (apiBaseUrl this @ ''/posts/'' @ numberToString postId) = Some (Inl err)"
    and "instanceofError err"
    and "errorMessage err = m"
  shows "fetchPostById this postId =
           Some (Inl (HttpException
             (''Failed to fetch post '' @ numberToString postId @ '': '' @ m) BAD_GATEWAY))"
  using assms by (simp add: fetchPostById_def)

theorem fetchPostById_wraps_error_message_witness:
  "fetchPostById
     (createWithClient Map.empty
        (\<lambda>u. Some (Inl (ErrorInstance ''Error'' ''Network Error''))) None
      :: ApiPost ApiDataService) 999
   = Some (Inl (HttpException ''Failed to fetch post 999: Network Error'' 502))
 \<and> fetchPostById
     (createWithClient Map.empty
        (\<lambda>u. Some (Inl (ErrorInstance ''Error'' ''Network Error''))) None
      :: ApiPost ApiDataService) 1000000000000000000000
   = Some (Inl (HttpException ''Failed to fetch post 1e+21: Network Error'' 502))"
  using fetchPostById_wraps_error_message
    [of "createWithClient Map.empty (\<lambda>u. Some (Inl (ErrorInstance ''Error'' ''Network Error''))) None"
        999 "ErrorInstance ''Error'' ''Network Error''" "''Network Error''"]
    fetchPostById_wraps_error_message
    [of "createWithClient Map.empty (\<lambda>u. Some (Inl (ErrorInstance ''Error'' ''Network Error''))) None"
        1000000000000000000000 "ErrorInstance ''Error'' ''Network Error''" "''Network Error''"]
  by (simp add: createWithClient_def numberToString_999 numberToString_1e21 BAD_GATEWAY_def)

text \<open>
  C6. When the client's \<open>get\<close> fulfils with a response, \<open>fetchPostById\<close> fulfils with the
  response's \<open>data\<close> itself: the record is handed on with its fields \<open>userId\<close>, \<open>id\<close>,
  \<open>title\<close> and \<open>body\<close> as received.
\<close>

theorem fetchPostById_returns_data_unchanged:
  assumes "httpClient this (apiBaseUrl this @ ''/posts/'' @ numberToString postId)
             = Some (Inr response)"
  shows "fetchPostById this postId = Some (Inr (data response))"
  using assms by (simp add: fetchPostById_def)

theorem fetchPostById_returns_data_unchanged_witness:
  "fetchPostById
     (createWithClient Map.empty
        (\<lambda>u. Some (Inr \<lparr> data = \<lparr> userId = 1, id' = 1, title = ''Test Post Title'',
                                       body = ''Test post body content'' \<rparr>,
                             axiosStatus = 200, axiosStatusText = ''OK'' \<rparr>)) None) 1
   = Some (Inr \<lparr> userId = 1, id' = 1, title = ''Test Post Title'',
                  body = ''Test post body content'' \<rparr>)"
  using fetchPostById_returns_data_unchanged
    [of "createWithClient Map.empty
        (\<lambda>u. Some (Inr \<lparr> data = \<lparr> userId = 1, id' = 1, title = ''Test Post Title'',
                                       body = ''Test post body content'' \<rparr>,
                             axiosStatus = 200, axiosStatusText = ''OK'' \<rparr>)) None" 1
        "\<lparr> data = \<lparr> userId = 1, id' = 1, title = ''Test Post Title'',
                                       body = ''Test post body content'' \<rparr>,
                             axiosStatus = 200, axiosStatusText = ''OK'' \<rparr>"]
  by (simp add: createWithClient_def)

text \<open>
  C7. A service built by the constructor, whose \<open>axios.create\<close> yields the client \<open>t\<close>,
  and a service built by \<open>createWithClient\<close> from \<open>t\<close> with the same resolved base URL are
  the same service, and \<open>fetchPostById\<close> and \<open>fetchAllPosts\<close> behave identically on them.
\<close>

theorem construction_paths_agree:
  assumes "axiosCreate 5000 = t"
    and "apiBaseUrl (createWithClient env' t baseUrl) = apiBaseUrl (constructor env axiosCreate)"
  shows "createWithClient env' t baseUrl = constructor env axiosCreate
       \<and> fetchPostById (createWithClient env' t baseUrl) postId
           = fetchPostById (constructor env axiosCreate) postId
       \<and> fetchAllPosts (createWithClient env' t baseUrl)
           = fetchAllPosts (constructor env axiosCreate)"
proof -
  have "createWithClient env' t baseUrl = constructor env axiosCreate"
    using assms by (simp add: createWithClient_def constructor_def)
  then show ?thesis by simp
qed

theorem construction_paths_agree_witness:
  "fetchPostById
     (createWithClient [''API_BASE_URL'' \<mapsto> ''http://upstream.test'']
        (\<lambda>u. Some (Inl (ErrorInstance ''Error'' ''Network Error'')) :: ApiPost AxiosResponse promise)
        None) 999
   = fetchPostById
       (constructor [''API_BASE_URL'' \<mapsto> ''http://upstream.test'']
          (\<lambda>timeout u. Some (Inl (ErrorInstance ''Error'' ''Network Error'')))) 999
 \<and> fetchAllPosts
     (createWithClient [''API_BASE_URL'' \<mapsto> ''http://upstream.test'']
        (\<lambda>u. Some (Inl (ErrorInstance ''Error'' ''Network Error'')) :: ApiPost AxiosResponse promise)
        None)
   = fetchAllPosts
       (constructor [''API_BASE_URL'' \<mapsto> ''http://upstream.test'']
          (\<lambda>timeout u. Some (Inl (ErrorInstance ''Error'' ''Network Error''))))"
proof -
  let ?t = "\<lambda>u. Some (Inl (ErrorInstance ''Error'' ''Network Error'')) :: ApiPost AxiosResponse promise"
  let ?env = "[''API_BASE_URL'' \<mapsto> ''http://upstream.test'']"
  have create: "(\<lambda>timeout :: nat. ?t) 5000 = ?t"
    by simp
  have url: "apiBaseUrl (createWithClient ?env ?t None) = apiBaseUrl (constructor ?env (\<lambda>timeout. ?t))"
    by (simp add: createWithClient_def constructor_def)
  from construction_paths_agree [OF create url]
  show ?thesis by blast
qed

text \<open>
  C8. Whatever \<open>fetchPostById\<close> or \<open>fetchAllPosts\<close> rejects with is an \<open>HttpException\<close> of
  status 502 (Bad Gateway), whatever the client rejected with.
\<close>

theorem failures_are_bad_gateway:
  "(fetchPostById this postId = Some (Inl e) \<longrightarrow> (\<exists>m. e = HttpException m 502))
 \<and> (fetchAllPosts this = Some (Inl e') \<longrightarrow> (\<exists>m. e' = HttpException m 502))"
  by (auto simp: fetchPostById_def fetchAllPosts_def BAD_GATEWAY_def Let_def
           split: option.splits sum.splits)

theorem failures_are_bad_gateway_witness:
  "fetchPostById
     (createWithClient Map.empty (\<lambda>u. Some (Inl NonError)) None :: ApiPost ApiDataService) 1
     = Some (Inl (HttpException ''Failed to fetch post 1: Unknown error fetching post'' 502))
 \<and> (\<exists>m. HttpException ''Failed to fetch post 1: Unknown error fetching post'' 502
          = HttpException m 502)
 \<and> fetchAllPosts
     (createWithClient Map.empty
        (\<lambda>u. Some (Inl (ErrorInstance ''AxiosError'' ''Request failed with status code 500'')))
        None :: ApiPost ApiDataService)
     = Some (Inl (HttpException ''Failed to fetch posts: Request failed with status code 500'' 502))
 \<and> (\<exists>m. HttpException ''Failed to fetch posts: Request failed with status code 500'' 502
          = HttpException m 502)"
proof -
  let ?s1 = "createWithClient Map.empty (\<lambda>u. Some (Inl NonError)) None :: ApiPost ApiDataService"
  let ?s2 = "createWithClient Map.empty
        (\<lambda>u. Some (Inl (ErrorInstance ''AxiosError'' ''Request failed with status code 500'')))
        None :: ApiPost ApiDataService"
  let ?e1 = "HttpException ''Failed to fetch post 1: Unknown error fetching post'' 502"
  let ?e2 = "HttpException ''Failed to fetch posts: Request failed with status code 500'' 502"
  have h1: "fetchPostById ?s1 1 = Some (Inl ?e1)"
    by (simp add: fetchPostById_def createWithClient_def numberToString_1 BAD_GATEWAY_def)
  have h2: "fetchAllPosts ?s2 = Some (Inl ?e2)"
    by (simp add: fetchAllPosts_def createWithClient_def BAD_GATEWAY_def)
  from failures_are_bad_gateway [of ?s1 1 ?e1 ?e1] h1
  have c1: "\<exists>m. ?e1 = HttpException m 502" by blast
  from failures_are_bad_gateway [of ?s2 1 ?e2 ?e2] h2
  have c2: "\<exists>m. ?e2 = HttpException m 502" by blast
  from h1 c1 h2 c2 show ?thesis by blast
qed

text \<open>
  C9. When the client's \<open>get\<close> rejects with a value that is not an instance of \<open>Error\<close>, the
  cause written into the message is \<open>Unknown error fetching post\<close> in \<open>fetchPostById\<close> and
  \<open>Unknown error fetching posts\<close> in \<open>fetchAllPosts\<close>.
\<close>

theorem non_error_rejection_uses_fallback_cause:
  "(httpClient this (apiBaseUrl this @ ''/posts/'' @ numberToString postId) = Some (Inl err)
      \<and> \<not> instanceofError err
    \<longrightarrow> fetchPostById this postId =
          Some (Inl (HttpException
            (''Failed to fetch post '' @ numberToString postId @ '': ''
               @ ''Unknown error fetching post'')
            BAD_GATEWAY)))
 \<and> (httpClient this (apiBaseUrl this @ ''/posts'') = Some (Inl err') \<and> \<not> instanceofError err'
    \<longrightarrow> fetchAllPosts this =
          Some (Inl (HttpException (''Failed to fetch posts: '' @ ''Unknown error fetching posts'')
            BAD_GATEWAY)))"
  by (simp add: fetchPostById_def fetchAllPosts_def)

theorem non_error_rejection_uses_fallback_cause_witness:
  "fetchPostById
     (createWithClient Map.empty (\<lambda>u. Some (Inl NonError)) None :: ApiPost ApiDataService) 999
     = Some (Inl (HttpException ''Failed to fetch post 999: Unknown error fetching post'' 502))
 \<and> fetchAllPosts
     (createWithClient Map.empty (\<lambda>u. Some (Inl NonError)) None :: ApiPost ApiDataService)
     = Some (Inl (HttpException ''Failed to fetch posts: Unknown error fetching posts'' 502))"
proof -
  let ?s = "createWithClient Map.empty (\<lambda>u. Some (Inl NonError)) None :: ApiPost ApiDataService"
  have h1: "httpClient ?s (apiBaseUrl ?s @ ''/posts/'' @ numberToString 999) = Some (Inl NonError)
            \<and> \<not> instanceofError NonError"
    by (simp add: createWithClient_def)
  have h2: "httpClient ?s (apiBaseUrl ?s @ ''/posts'') = Some (Inl NonError)
            \<and> \<not> instanceofError NonError"
    by (simp add: createWithClient_def)
  from non_error_rejection_uses_fallback_cause [of ?s 999 NonError NonError] h1 h2
  show ?thesis
    by (simp add: numberToString_999 BAD_GATEWAY_def)
qed

section \<open>PostDisplay: what one settlement does\<close>

text \<open>
  C10. Omitted props take the defaults \<open>http://localhost:3000/api\<close> and \<open>1\<close>: the first
  render of an instance without props calls \<open>fetch\<close> once, with the URL
  \<open>http://localhost:3000/api/posts/1\<close>, and each default also applies when only the other
  prop is given.
\<close>

theorem propless_mount_fetches_default_url:
  "map url (attempts (step (Render None None) fresh)) = [''http://localhost:3000/api/posts/1'']
 \<and> lifecycle (step (Render None None) fresh) = Mounted ''http://localhost:3000/api'' 1
 \<and> map url (attempts (step (Render None (Some i)) fresh))
       = [''http://localhost:3000/api/posts/'' @ numberToString i]
 \<and> map url (attempts (step (Render (Some b) None) fresh)) = [b @ ''/posts/1'']"
  by (simp add: lifecycle_defs numberToString_1)

text \<open>
  C5. When the \<open>fetch\<close> promise of an attempt of a mounted instance fulfils with a response
  whose \<open>ok\<close> is false, the error cell becomes \<open>HTTP {status}: {statusText}\<close>, loading
  becomes false, and the instance renders the error element with the text
  \<open>Error: HTTP {status}: {statusText}\<close>.
\<close>

theorem non_ok_response_shows_http_error:
  assumes "k < length (attempts c)"
    and "phase (attempts c ! k) = AwaitFetch"
    and "lifecycle c \<noteq> Unmounted"
    and "\<not> ok response"
  shows "state (step (FetchSettled k (Inr response)) c)
           = (state c)\<lparr> error := Some (''HTTP '' @ numberToString (status response) @ '': ''
                                          @ statusText response),
                        loading := False \<rparr>
       \<and> render (state (step (FetchSettled k (Inr response)) c))
           = Element ''div'' ''error''
               [TextNode ''Error: '',
                TextNode (''HTTP '' @ numberToString (status response) @ '': ''
                          @ statusText response)]
       \<and> textContent (render (state (step (FetchSettled k (Inr response)) c)))
           = ''Error: HTTP '' @ numberToString (status response) @ '': '' @ statusText response"
  using assms by (simp add: lifecycle_defs render_def)

theorem non_ok_response_shows_http_error_witness:
  "state (step (FetchSettled 0 (Inr \<lparr> ok = False, status = 404, statusText = ''Not Found'' \<rparr>))
            (step (Render (Some ''http://test.api'') (Some 999)) fresh))
     = \<lparr> post = None, loading = False, error = Some ''HTTP 404: Not Found'' \<rparr>
 \<and> textContent (render (state
       (step (FetchSettled 0 (Inr \<lparr> ok = False, status = 404, statusText = ''Not Found'' \<rparr>))
            (step (Render (Some ''http://test.api'') (Some 999)) fresh))))
     = ''Error: HTTP 404: Not Found''"
proof -
  let ?c = "step (Render (Some ''http://test.api'') (Some 999)) fresh"
  let ?r = "\<lparr> ok = False, status = 404, statusText = ''Not Found'' \<rparr>"
  have c: "?c = \<lparr> lifecycle = Mounted ''http://test.api'' 999,
                  state = \<lparr> post = None, loading = True, error = None \<rparr>,
                  attempts = [\<lparr> url = ''http://test.api/posts/999'', aborted = False,
                                phase = AwaitFetch \<rparr>] \<rparr>"
    by (simp add: fresh_def initialState_def runEffect_def beforeFetch_def numberToString_999)
  have "0 < length (attempts ?c)" and "phase (attempts ?c ! 0) = AwaitFetch"
    and "lifecycle ?c \<noteq> Unmounted" and "\<not> ok ?r"
    by (simp_all add: c del: step.simps)
  from non_ok_response_shows_http_error [OF this]
  show ?thesis
    by (simp add: c numberToString_404 render_def del: step.simps)
qed

text \<open>
  C1. The claim is that the settlement of a cancelled attempt changes no cell. In the
  code the \<open>catch\<close> block skips \<open>setError\<close> for the error named \<open>AbortError\<close>, but the
  \<open>finally\<close> block still calls \<open>setLoading(false)\<close>: after an identity change, with the
  new attempt in flight and loading true, the rejection of the cancelled attempt turns
  loading to false and the instance renders the no-data element.
\<close>

theorem abort_rejection_clears_loading:
  "loading (state (run [Render (Some ''http://test.api'') (Some 1),
                        Render (Some ''http://test.api'') (Some 2)] fresh)) = True
 \<and> state (run [Render (Some ''http://test.api'') (Some 1),
               Render (Some ''http://test.api'') (Some 2),
               FetchSettled 0 (Inl (ErrorInstance ''AbortError'' ''The operation was aborted.''))]
          fresh)
     = \<lparr> post = None, loading = False, error = None \<rparr>
 \<and> render (state (run [Render (Some ''http://test.api'') (Some 1),
               Render (Some ''http://test.api'') (Some 2),
               FetchSettled 0 (Inl (ErrorInstance ''AbortError'' ''The operation was aborted.''))]
          fresh))
     = Element ''div'' ''empty'' [TextNode ''No post data'']"
  by (simp add: lifecycle_defs render_def)

text \<open>
  C4. The claim is that every failure other than a cancellation ends in the error state,
  with a fallback text when the failure has no message. In the code the \<open>catch\<close> block
  calls \<open>setError\<close> only for instances of \<open>Error\<close> and has no fallback: a rejection with
  any other value leaves the error cell \<open>null\<close>, and an \<open>Error\<close> whose message is empty
  sets it to the empty string, which is falsy; both render the no-data element.
\<close>

theorem non_error_rejection_is_dropped:
  "state (run [Render (Some ''http://test.api'') (Some 1), FetchSettled 0 (Inl NonError)] fresh)
     = \<lparr> post = None, loading = False, error = None \<rparr>
 \<and> render (state (run [Render (Some ''http://test.api'') (Some 1),
                        FetchSettled 0 (Inl NonError)] fresh))
     = Element ''div'' ''empty'' [TextNode ''No post data'']
 \<and> render (state (run [Render (Some ''http://test.api'') (Some 1),
                        FetchSettled 0 (Inl (ErrorInstance ''Error'' []))] fresh))
     = Element ''div'' ''empty'' [TextNode ''No post data'']"
  by (simp add: lifecycle_defs render_def)

section \<open>PostDisplay: histories of supersessions\<close>

lemma run_append: "run (xs @ ys) c = run ys (run xs c)"
  by (simp add: run_def)

lemma run_Cons: "run (e # es) c = run es (step e c)"
  by (simp add: run_def)

lemma run_Nil: "run [] c = c"
  by (simp add: run_def)

lemma catchClause_abort: "isAbortError err \<Longrightarrow> catchClause err s = s"
  by (simp add: catchClause_def isAbortError_def)

lemma setPhase_fields:
  "state (setPhase k p c) = state c"
  "lifecycle (setPhase k p c) = lifecycle c"
  "length (attempts (setPhase k p c)) = length (attempts c)"
  by (simp_all add: setPhase_def)

lemma setPhase_nth:
  "j < length (attempts c) \<Longrightarrow>
     attempts (setPhase k p c) ! j = (if j = k then (attempts c ! k)\<lparr> phase := p \<rparr> else attempts c ! j)"
  by (simp add: setPhase_def nth_list_update)

lemma setState_fields:
  "lifecycle (setState s c) = lifecycle c"
  "attempts (setState s c) = attempts c"
  by (simp_all add: setState_def)

text \<open>A stale settlement that honours the abort signal leaves post and error alone.\<close>

lemma staleAbort_outcome:
  "staleAbort e c \<Longrightarrow> outcome (state (step e c)) = outcome (state c)"
  by (cases e)
     (auto simp: outcome_def afterFetch_def afterJson_def catchClause_abort finallyClause_def
                 setState_def setPhase_fields split: sum.splits)

lemma staleAbort_lifecycle:
  "staleAbort e c \<Longrightarrow> lifecycle (step e c) = lifecycle c"
  by (cases e)
     (auto simp: afterFetch_def setState_fields setPhase_fields split: sum.splits option.splits)

lemma staleAbort_length:
  "staleAbort e c \<Longrightarrow> length (attempts (step e c)) = length (attempts c)"
  by (cases e)
     (auto simp: afterFetch_def setState_fields setPhase_fields split: sum.splits option.splits)

lemma staleAbort_other:
  "staleAbort e c \<Longrightarrow> j < length (attempts c) \<Longrightarrow> \<not> aborted (attempts c ! j)
     \<Longrightarrow> attempts (step e c) ! j = attempts c ! j"
  by (cases e)
     (auto simp: afterFetch_def setState_fields setPhase_nth split: sum.splits option.splits)

lemma staleOnly_run:
  "staleOnly es c \<Longrightarrow>
     outcome (state (run es c)) = outcome (state c) \<and>
     lifecycle (run es c) = lifecycle c \<and>
     length (attempts (run es c)) = length (attempts c) \<and>
     (\<forall>j < length (attempts c). \<not> aborted (attempts c ! j)
        \<longrightarrow> attempts (run es c) ! j = attempts c ! j)"
proof (induction es arbitrary: c)
  case Nil
  show ?case by (simp add: run_Nil)
next
  case (Cons e es)
  from Cons.prems have e: "staleAbort e c" and es: "staleOnly es (step e c)"
    by simp_all
  note ih = Cons.IH [OF es]
  show ?case
    unfolding run_Cons
    using ih staleAbort_outcome [OF e] staleAbort_lifecycle [OF e] staleAbort_length [OF e]
      staleAbort_other [OF e]
    by auto
qed

text \<open>Renders and stale settlements keep an attempt in flight and apply no result.\<close>

lemma inFlight_latest:
  "inFlight c \<Longrightarrow>
     latest c < length (attempts c) \<and> \<not> aborted (attempts c ! latest c) \<and>
     phase (attempts c ! latest c) = AwaitFetch"
  using last_conv_nth [of "attempts c"] by (auto simp: inFlight_def latest_def)

lemma staleAbort_inFlight:
  assumes "staleAbort e c" and "inFlight c"
  shows "inFlight (step e c)"
proof -
  from inFlight_latest [OF assms(2)]
  have n: "latest c < length (attempts c)" and na: "\<not> aborted (attempts c ! latest c)"
    and ph: "phase (attempts c ! latest c) = AwaitFetch"
    by simp_all
  have len: "length (attempts (step e c)) = length (attempts c)"
    by (rule staleAbort_length [OF assms(1)])
  have same: "attempts (step e c) ! latest c = attempts c ! latest c"
    by (rule staleAbort_other [OF assms(1) n na])
  have ne: "attempts (step e c) \<noteq> []"
    using len n by auto
  have "last (attempts (step e c)) = attempts c ! latest c"
    using ne len same by (simp add: last_conv_nth latest_def)
  then show ?thesis
    using assms(2) na ph ne staleAbort_lifecycle [OF assms(1)]
    by (simp add: inFlight_def)
qed

lemma render_inFlight:
  assumes "isRender e" and "lifecycle c = Fresh \<or> inFlight c"
  shows "inFlight (step e c)"
  using assms
  by (cases e; cases "lifecycle c")
     (auto simp: inFlight_def runEffect_def cleanup_def Let_def split: list.splits)

lemma render_outcome:
  assumes "isRender e" and "outcome (state c) = (None, None)"
  shows "outcome (state (step e c)) = (None, None)"
  using assms
  by (cases e; cases "lifecycle c")
     (auto simp: outcome_def runEffect_def cleanup_def beforeFetch_def Let_def split: list.splits)

lemma supersessions_run:
  "supersessions es c \<Longrightarrow> lifecycle c = Fresh \<or> inFlight c \<Longrightarrow> outcome (state c) = (None, None)
     \<Longrightarrow> (lifecycle (run es c) = Fresh \<or> inFlight (run es c)) \<and>
         outcome (state (run es c)) = (None, None)"
proof (induction es arbitrary: c)
  case Nil
  then show ?case by (simp add: run_Nil)
next
  case (Cons e es)
  from Cons.prems(1) have e: "isRender e \<or> staleAbort e c" and es: "supersessions es (step e c)"
    by simp_all
  have inv: "lifecycle (step e c) = Fresh \<or> inFlight (step e c)"
    using e Cons.prems(2) render_inFlight staleAbort_inFlight staleAbort_lifecycle
    by metis
  have out: "outcome (state (step e c)) = (None, None)"
    using e Cons.prems(3) render_outcome staleAbort_outcome
    by metis
  show ?case
    unfolding run_Cons by (rule Cons.IH [OF es inv out])
qed


text \<open>What a resumed \<open>fetchPost\<close> writes to post and error depends on those two cells only.\<close>

lemma outcome_finallyClause: "outcome (finallyClause s) = outcome s"
  by (simp add: outcome_def finallyClause_def)

lemma outcome_catchClause:
  "outcome (catchClause err s) =
     (fst (outcome s),
      if instanceofError err \<and> errorName err \<noteq> ''AbortError''
      then Some (errorMessage err) else snd (outcome s))"
  by (simp add: outcome_def catchClause_def)

lemma outcome_setPost: "outcome (s\<lparr> post := p \<rparr>) = (p, snd (outcome s))"
  by (simp add: outcome_def)

lemma afterFetch_None: "afterFetch r s = None \<longleftrightarrow> afterFetch r t = None"
  by (simp add: afterFetch_def split: sum.splits option.splits)

lemma afterFetch_outcome:
  assumes "outcome s = outcome t" and "afterFetch r s = Some s'" and "afterFetch r t = Some t'"
  shows "outcome s' = outcome t'"
proof (cases r)
  case (Inl err)
  with assms(2,3) have "s' = finallyClause (catchClause err s)" "t' = finallyClause (catchClause err t)"
    by (simp_all add: afterFetch_def)
  then show ?thesis
    by (simp add: outcome_finallyClause outcome_catchClause assms(1))
next
  case (Inr response)
  with assms(2,3) obtain err where "s' = finallyClause (catchClause err s)"
    "t' = finallyClause (catchClause err t)"
    by (cases "checkOk response") (auto simp: afterFetch_def)
  then show ?thesis
    by (simp add: outcome_finallyClause outcome_catchClause assms(1))
qed

lemma afterJson_outcome:
  assumes "outcome s = outcome t"
  shows "outcome (afterJson j s) = outcome (afterJson j t)"
  by (cases j)
     (simp_all add: afterJson_def outcome_finallyClause outcome_catchClause outcome_setPost assms)

lemma step_FetchSettled_inFlight:
  assumes "inFlight c"
  shows "afterFetch r (state c) = Some s \<Longrightarrow> state (step (FetchSettled (latest c) r) c) = s"
    and "afterFetch r (state c) = None \<Longrightarrow>
           state (step (FetchSettled (latest c) r) c) = state c \<and>
           lifecycle (step (FetchSettled (latest c) r) c) = lifecycle c \<and>
           length (attempts (step (FetchSettled (latest c) r) c)) = length (attempts c) \<and>
           \<not> aborted (attempts (step (FetchSettled (latest c) r) c) ! latest c) \<and>
           phase (attempts (step (FetchSettled (latest c) r) c) ! latest c) = AwaitJson"
  using inFlight_latest [OF assms] assms
  by (auto simp: inFlight_def setState_def setPhase_fields setPhase_nth)

text \<open>
  C2, as stated. The transport need not honour the abort signal (the mocked \<open>fetch\<close> of
  the test suite does not): the second attempt settles with its post, then the first,
  superseded attempt fulfils with its own post, and that post replaces the newer one.
\<close>

theorem stale_result_overwrites_newer_counterexample:
  "map aborted (attempts (run
     [Render (Some ''http://test.api'') (Some 1),
      Render (Some ''http://test.api'') (Some 2)] fresh)) = [True, False]
 \<and> outcome (state (run
     [Render (Some ''http://test.api'') (Some 1),
      Render (Some ''http://test.api'') (Some 2),
      FetchSettled 1 (Inr \<lparr> ok = True, status = 200, statusText = ''OK'' \<rparr>),
      JsonSettled 1 (Inr \<lparr> userId = 1, id' = 2, title = ''two'', body = ''second'' \<rparr>),
      FetchSettled 0 (Inr \<lparr> ok = True, status = 200, statusText = ''OK'' \<rparr>),
      JsonSettled 0 (Inr \<lparr> userId = 1, id' = 1, title = ''one'', body = ''first'' \<rparr>)] fresh))
   = (Some \<lparr> userId = 1, id' = 1, title = ''one'', body = ''first'' \<rparr>, None)
 \<and> outcome (state (run
     [Render (Some ''http://test.api'') (Some 1),
      Render (Some ''http://test.api'') (Some 2),
      FetchSettled 1 (Inr \<lparr> ok = True, status = 200, statusText = ''OK'' \<rparr>),
      JsonSettled 1 (Inr \<lparr> userId = 1, id' = 2, title = ''two'', body = ''second'' \<rparr>),
      FetchSettled 0 (Inr \<lparr> ok = True, status = 200, statusText = ''OK'' \<rparr>),
      JsonSettled 0 (Inr \<lparr> userId = 1, id' = 1, title = ''one'', body = ''first'' \<rparr>)] fresh))
   \<noteq> outcome (afterJson (Inr \<lparr> userId = 1, id' = 2, title = ''two'', body = ''second'' \<rparr>)
                (beforeFetch initialState))"
  by (simp add: lifecycle_defs outcome_def)

text \<open>
  C2, amended. Let identities change while the attempt in flight has not settled, and let
  every superseded attempt settle, if it does, by rejecting with the error named
  \<open>AbortError\<close>. Then no result reaches post and error before the attempt of the most
  recent identity settles; and once it has, post and error are those that its result
  alone gives from the state of a first render, whatever stale settlements come before,
  between and after. Nothing is said of the loading cell.
\<close>

theorem only_latest_result_reaches_post_and_error:
  assumes sup: "supersessions es fresh"
    and mounted: "lifecycle (run es fresh) \<noteq> Fresh"
    and n: "n = latest (run es fresh)"
  shows "outcome (state (run es fresh)) = (None, None)
     \<and> (\<forall>s'. afterFetch r (beforeFetch initialState) = Some s'
               \<and> staleOnly ys (run (es @ [FetchSettled n r]) fresh)
          \<longrightarrow> outcome (state (run (es @ [FetchSettled n r] @ ys) fresh)) = outcome s')
     \<and> (afterFetch r (beforeFetch initialState) = None
          \<and> staleOnly ys (run (es @ [FetchSettled n r]) fresh)
          \<and> staleOnly zs (run (es @ [FetchSettled n r] @ ys @ [JsonSettled n j]) fresh)
          \<longrightarrow> outcome (state (run (es @ [FetchSettled n r] @ ys @ [JsonSettled n j] @ zs) fresh))
                = outcome (afterJson j (beforeFetch initialState)))"
proof -
  define c where "c = run es fresh"
  define c' where "c' = step (FetchSettled n r) c"
  have start: "lifecycle fresh = Fresh \<or> inFlight fresh" "outcome (state fresh) = (None, None)"
    by (simp_all add: fresh_def initialState_def outcome_def)
  from supersessions_run [OF sup start] mounted
  have fl: "inFlight c" and out: "outcome (state c) = (None, None)"
    by (simp_all add: c_def)
  have same: "outcome (state c) = outcome (beforeFetch initialState)"
    by (simp add: out) (simp add: outcome_def beforeFetch_def initialState_def)
  have n': "n = latest c"
    by (simp add: n c_def)
  have first: "outcome (state (run es fresh)) = (None, None)"
    using out by (simp add: c_def)
  have second: "outcome (state (run (es @ [FetchSettled n r] @ ys) fresh)) = outcome s'"
    if a: "afterFetch r (beforeFetch initialState) = Some s'" and st: "staleOnly ys c'" for s'
  proof -
    from afterFetch_None [of r "state c" "beforeFetch initialState"] a
    obtain s where s: "afterFetch r (state c) = Some s"
      by (cases "afterFetch r (state c)") auto
    have eq: "outcome s = outcome s'"
      by (rule afterFetch_outcome [OF same s a])
    have "state c' = s"
      unfolding c'_def n' by (rule step_FetchSettled_inFlight(1) [OF fl s])
    with staleOnly_run [OF st] eq show ?thesis
      by (simp add: run_append run_Cons run_Nil c_def c'_def)
  qed
  have third: "outcome (state (run (es @ [FetchSettled n r] @ ys @ [JsonSettled n j] @ zs) fresh))
                = outcome (afterJson j (beforeFetch initialState))"
    if a: "afterFetch r (beforeFetch initialState) = None" and st: "staleOnly ys c'"
      and st': "staleOnly zs (step (JsonSettled n j) (run ys c'))"
  proof -
    from afterFetch_None [of r "state c" "beforeFetch initialState"] a
    have "afterFetch r (state c) = None"
      by simp
    from step_FetchSettled_inFlight(2) [OF fl this]
    have c': "state c' = state c" "lifecycle c' = lifecycle c"
      "length (attempts c') = length (attempts c)"
      "\<not> aborted (attempts c' ! n)" "phase (attempts c' ! n) = AwaitJson"
      by (simp_all add: c'_def n')
    have len: "n < length (attempts c')"
      using inFlight_latest [OF fl] c'(3) by (simp add: n')
    define d where "d = run ys c'"
    from staleOnly_run [OF st] len c'(4)
    have d: "outcome (state d) = outcome (state c')" "lifecycle d = lifecycle c'"
      "length (attempts d) = length (attempts c')" "attempts d ! n = attempts c' ! n"
      by (simp_all add: d_def)
    have live: "lifecycle d \<noteq> Unmounted"
      using fl d(2) c'(2) by (simp add: inFlight_def)
    have "state (step (JsonSettled n j) d) = afterJson j (state d)"
      using len d(3,4) c'(5) live by (simp add: setState_def setPhase_fields)
    moreover have "outcome (afterJson j (state d)) = outcome (afterJson j (beforeFetch initialState))"
      by (rule afterJson_outcome) (simp add: d(1) c'(1) same)
    ultimately have "outcome (state (step (JsonSettled n j) d))
                       = outcome (afterJson j (beforeFetch initialState))"
      by simp
    with staleOnly_run [OF st'] show ?thesis
      by (simp add: run_append run_Cons run_Nil c_def c'_def d_def)
  qed
  have c'_run: "run (es @ [FetchSettled n r]) fresh = c'"
    by (simp add: run_append run_Cons run_Nil c_def c'_def)
  have d_run: "run (es @ [FetchSettled n r] @ ys @ [JsonSettled n j]) fresh
                 = step (JsonSettled n j) (run ys c')"
    by (simp add: run_append run_Cons run_Nil c_def c'_def)
  show ?thesis
    unfolding c'_run d_run using first second third by blast
qed


theorem only_latest_result_reaches_post_and_error_witness:
  "supersessions
     [Render (Some ''http://test.api'') (Some 1),
      Render (Some ''http://test.api'') (Some 2),
      FetchSettled 0 (Inl (ErrorInstance ''AbortError'' ''The operation was aborted.'')),
      Render (Some ''http://test.api'') (Some 3),
      Render (Some ''http://test.api'') (Some 4)] fresh
 \<and> outcome (state (run
     ([Render (Some ''http://test.api'') (Some 1),
       Render (Some ''http://test.api'') (Some 2),
       FetchSettled 0 (Inl (ErrorInstance ''AbortError'' ''The operation was aborted.'')),
       Render (Some ''http://test.api'') (Some 3),
       Render (Some ''http://test.api'') (Some 4)]
      @ [FetchSettled 3 (Inl (ErrorInstance ''TypeError'' ''Failed to fetch''))]
      @ [FetchSettled 1 (Inl (ErrorInstance ''AbortError'' ''The operation was aborted.''))]) fresh))
     = (None, Some ''Failed to fetch'')
 \<and> outcome (state (run
     ([Render (Some ''http://test.api'') (Some 1),
       Render (Some ''http://test.api'') (Some 2),
       FetchSettled 0 (Inl (ErrorInstance ''AbortError'' ''The operation was aborted.'')),
       Render (Some ''http://test.api'') (Some 3),
       Render (Some ''http://test.api'') (Some 4)]
      @ [FetchSettled 3 (Inr \<lparr> ok = True, status = 200, statusText = ''OK'' \<rparr>)]
      @ [FetchSettled 1 (Inl (ErrorInstance ''AbortError'' ''The operation was aborted.''))]
      @ [JsonSettled 3 (Inr \<lparr> userId = 1, id' = 4, title = ''four'', body = ''fourth'' \<rparr>)]
      @ [FetchSettled 2 (Inl (ErrorInstance ''AbortError'' ''The operation was aborted.''))]) fresh))
     = (Some \<lparr> userId = 1, id' = 4, title = ''four'', body = ''fourth'' \<rparr>, None)"
proof -
  let ?abort = "Inl (ErrorInstance ''AbortError'' ''The operation was aborted.'') :: thrown + Response"
  let ?es = "[Render (Some ''http://test.api'') (Some 1),
      Render (Some ''http://test.api'') (Some 2),
      FetchSettled 0 ?abort,
      Render (Some ''http://test.api'') (Some 3),
      Render (Some ''http://test.api'') (Some 4)]"
  let ?fail = "Inl (ErrorInstance ''TypeError'' ''Failed to fetch'') :: thrown + Response"
  let ?ok = "Inr \<lparr> ok = True, status = 200, statusText = ''OK'' \<rparr> :: thrown + Response"
  let ?p = "\<lparr> userId = 1, id' = 4, title = ''four'', body = ''fourth'' \<rparr>"
  let ?ys = "[FetchSettled 1 ?abort]"
  let ?zs = "[FetchSettled 2 ?abort]"
  have sup: "supersessions ?es fresh"
    by (simp add: lifecycle_defs isAbortError_def)
  have mounted: "lifecycle (run ?es fresh) \<noteq> Fresh"
    by (simp add: lifecycle_defs)
  have n: "3 = latest (run ?es fresh)"
    by (simp add: latest_def lifecycle_defs)
  have fail: "afterFetch ?fail (beforeFetch initialState)
                = Some \<lparr> post = None, loading = False, error = Some ''Failed to fetch'' \<rparr>"
    by (simp add: lifecycle_defs)
  have ok: "afterFetch ?ok (beforeFetch initialState) = None"
    by (simp add: lifecycle_defs)
  have ys1: "staleOnly ?ys (run (?es @ [FetchSettled 3 ?fail]) fresh)"
    by (simp add: lifecycle_defs isAbortError_def)
  have ys2: "staleOnly ?ys (run (?es @ [FetchSettled 3 ?ok]) fresh)"
    by (simp add: lifecycle_defs isAbortError_def)
  have zs: "staleOnly ?zs (run (?es @ [FetchSettled 3 ?ok] @ ?ys @ [JsonSettled 3 (Inr ?p)]) fresh)"
    by (simp add: lifecycle_defs isAbortError_def)
  from only_latest_result_reaches_post_and_error [OF sup mounted n, of ?fail ?ys] fail ys1
  have one: "outcome (state (run (?es @ [FetchSettled 3 ?fail] @ ?ys) fresh))
               = outcome \<lparr> post = None, loading = False, error = Some ''Failed to fetch'' \<rparr>"
    by blast
  from only_latest_result_reaches_post_and_error [OF sup mounted n, of ?ok ?ys ?zs "Inr ?p"] ok ys2 zs
  have two: "outcome (state (run (?es @ [FetchSettled 3 ?ok] @ ?ys @ [JsonSettled 3 (Inr ?p)] @ ?zs) fresh))
               = outcome (afterJson (Inr ?p) (beforeFetch initialState))"
    by blast
  have "outcome (afterJson (Inr ?p) (beforeFetch initialState)) = (Some ?p, None)"
    by (simp add: outcome_def lifecycle_defs)
  with sup one two show ?thesis
    by (simp add: outcome_def)
qed

end
